theory Spec2Isabelle
  imports Main
begin

section \<open>Values of the host language\<close>

text \<open>
  The provider of \<^verbatim>\<open>packages/web3-providers-http/src/index.ts\<close> handles JSON
  values: request parameters, response bodies, event payloads, chain ids. An object is
  the list of its own enumerable properties in the order in which the runtime
  enumerates them; numbers are restricted to the integers.
\<close>

datatype json =
    JUndefined
  | JNull
  | JBool bool
  | JNum int
  | JStr string
  | JArr "json list"
  | JObj "(string \<times> json) list"

text \<open>The truthiness test that \<^verbatim>\<open>c ? a : b\<close> and \<^verbatim>\<open>a || b\<close> apply.\<close>

fun truthy :: "json \<Rightarrow> bool" where
  "truthy JUndefined = False"
| "truthy JNull = False"
| "truthy (JBool b) = b"
| "truthy (JNum n) = (n \<noteq> 0)"
| "truthy (JStr s) = (s \<noteq> [])"
| "truthy (JArr xs) = True"
| "truthy (JObj kvs) = True"

text \<open>
  Strict equality \<^verbatim>\<open>===\<close>. Primitive values are compared by value. Arrays and
  objects are compared by reference: every value met here comes out of a freshly parsed
  response, so two of them are never the same reference.
\<close>

fun strict_eq :: "json \<Rightarrow> json \<Rightarrow> bool" where
  "strict_eq JUndefined JUndefined = True"
| "strict_eq JNull JNull = True"
| "strict_eq (JBool a) (JBool b) = (a = b)"
| "strict_eq (JNum a) (JNum b) = (a = b)"
| "strict_eq (JStr a) (JStr b) = (a = b)"
| "strict_eq _ _ = False"

fun primitive :: "json \<Rightarrow> bool" where
  "primitive (JArr xs) = False"
| "primitive (JObj kvs) = False"
| "primitive _ = True"

text \<open>
  Error objects, by the properties the provider reads (\<^verbatim>\<open>code\<close>,
  \<^verbatim>\<open>message\<close>, \<^verbatim>\<open>stack\<close>) and their \<^verbatim>\<open>name\<close>. Of a stack trace only the
  header line is kept; the frames that follow it depend on the runtime.
\<close>

record js_error =
  name :: string
  code :: "string option"
  message :: string
  stack :: string

definition Error :: "string \<Rightarrow> js_error" where
  "Error msg = \<lparr>name = ''Error'', code = None, message = msg, stack = ''Error: '' @ msg\<rparr>"

definition TypeError :: "string \<Rightarrow> js_error" where
  "TypeError msg =
     \<lparr>name = ''TypeError'', code = None, message = msg, stack = ''TypeError: '' @ msg\<rparr>"

text \<open>
  Reading a property \<^verbatim>\<open>v.k\<close>. On \<^verbatim>\<open>undefined\<close> and \<^verbatim>\<open>null\<close> it throws a
  TypeError. The provider reads the names \<^verbatim>\<open>data\<close> and \<^verbatim>\<open>result\<close> only, which
  no string, number, boolean or array has.
\<close>

fun get_prop :: "json \<Rightarrow> string \<Rightarrow> js_error + json" where
  "get_prop JUndefined k =
     Inl (TypeError (''Cannot read properties of undefined (reading '' @ [CHR 0x27] @ k
            @ [CHR 0x27] @ '')''))"
| "get_prop JNull k =
     Inl (TypeError (''Cannot read properties of null (reading '' @ [CHR 0x27] @ k
            @ [CHR 0x27] @ '')''))"
| "get_prop (JObj kvs) k = Inr (case map_of kvs k of None \<Rightarrow> JUndefined | Some v \<Rightarrow> v)"
| "get_prop _ k = Inr JUndefined"

text \<open>
  An object literal \<^verbatim>\<open>{ ...o, k: v }\<close>: a key that \<^verbatim>\<open>o\<close> has keeps its place and
  takes the new value, a new key goes last.
\<close>

definition obj_set :: "(string \<times> json) list \<Rightarrow> string \<Rightarrow> json \<Rightarrow> (string \<times> json) list" where
  "obj_set kvs k v =
     (if k \<in> fst ` set kvs then map (\<lambda>(k', v'). if k' = k then (k', v) else (k', v')) kvs
      else kvs @ [(k, v)])"

text \<open>\<^verbatim>\<open>Object.values\<close> of an object: its values in enumeration order.\<close>

definition Object_values :: "(string \<times> json) list \<Rightarrow> json list" where
  "Object_values kvs = map snd kvs"

section \<open>The provider and its collaborators\<close>

text \<open>
  Modelled from the spec: the types \<^verbatim>\<open>RequestArguments\<close>, \<^verbatim>\<open>Web3ProviderEvents\<close>
  and \<^verbatim>\<open>Web3Client\<close> are declared in \<^verbatim>\<open>web3-core-types\<close>, and the error names in
  \<^verbatim>\<open>./errors\<close>, none of them among the sources. A request is
  \<^verbatim>\<open>{ method: string, params: array|object, rpcOptions?: object, providerOptions?: object }\<close>
  with \<^verbatim>\<open>params\<close> possibly undefined; the event kinds are Connect, Disconnect,
  ChainChanged and Message; a \<^verbatim>\<open>Web3Client\<close> is any value, tested for being a string
  by the provider.
\<close>

datatype params = PUndefined | PArray "json list" | PObject "(string \<times> json) list"

record ProviderOptions =
  axiosConfig :: json

record RequestArguments =
  "method" :: string
  params :: params
  rpcOptions :: "(string \<times> json) list option"
  providerOptions :: "ProviderOptions option"

datatype Web3ProviderEvents = Connect | Disconnect | ChainChanged | Message

datatype Web3ProvidersHttpErrorNames = invalidClientUrl

text \<open>
  The logger \<^verbatim>\<open>Web3CoreLogger\<close> is an external collaborator: \<^verbatim>\<open>makeError\<close> is a
  parameter of the operations that use it. It receives the error name and
  \<^verbatim>\<open>{ msg, params: { web3Client } }\<close>.
\<close>

type_synonym logger = "Web3ProvidersHttpErrorNames \<Rightarrow> string \<Rightarrow> json \<Rightarrow> js_error"

text \<open>The HTTP client made by \<^verbatim>\<open>axios.create({ baseURL })\<close>, and one call of its \<^verbatim>\<open>post\<close>.\<close>

record AxiosInstance =
  baseURL :: string

record post_call =
  client :: AxiosInstance
  path :: string
  body :: "(string \<times> json) list"
  config :: json

record AxiosResponse =
  data :: json

text \<open>
  \<^verbatim>\<open>request\<close> is asynchronous and suspends at its one \<^verbatim>\<open>await\<close>, on the promise of
  \<^verbatim>\<open>post\<close>. A suspended invocation is remembered with the call it waits for and with
  who awaits its own promise: a caller outside the provider, or \<^verbatim>\<open>_getChainId\<close> called
  by \<^verbatim>\<open>_connectToClient\<close>, whose promise nobody awaits.
\<close>

datatype awaited_by = Caller | GetChainId

record pending =
  awaiter :: awaited_by
  post :: post_call

text \<open>
  The provider: its four fields, the events emitted so far (\<^verbatim>\<open>emit\<close> of the inherited
  EventEmitter, oldest first), the listeners registered with \<^verbatim>\<open>on\<close>, and the suspended
  invocations of \<^verbatim>\<open>request\<close>. Listeners are identified by a number and are taken not
  to throw and not to call back into the provider.
\<close>

record provider =
  httpClient :: "AxiosInstance option"
  clientChainId :: json
  connected :: bool
  web3Client :: json
  emitted :: "(Web3ProviderEvents \<times> json) list"
  listeners :: "(Web3ProviderEvents \<times> nat) list"
  inflight :: "pending list"

definition emit :: "Web3ProviderEvents \<Rightarrow> json \<Rightarrow> provider \<Rightarrow> provider" where
  "emit ev payload s = s\<lparr>emitted := emitted s @ [(ev, payload)]\<rparr>"

section \<open>Validation and client creation\<close>

text \<open>
  The test \<^verbatim>\<open>/^http(s)?:\/\//i\<close>. Without the unicode flag, ignoring case compares
  characters by their upper case, and a character outside ASCII is never equal to one
  inside.
\<close>

definition canonicalize :: "char \<Rightarrow> char" where
  "canonicalize c =
     (case map_of (zip ''abcdefghijklmnopqrstuvwxyz'' ''ABCDEFGHIJKLMNOPQRSTUVWXYZ'') c of
        None \<Rightarrow> c
      | Some u \<Rightarrow> u)"

definition regex_test :: "string \<Rightarrow> bool" where
  "regex_test s =
     (let u = map canonicalize s in take 7 u = ''HTTP://'' \<or> take 8 u = ''HTTPS://'')"

text \<open>The condition \<^verbatim>\<open>typeof web3Client === 'string' && /^http(s)?:\/\//i.test(web3Client)\<close>.\<close>

definition is_http_url :: "json \<Rightarrow> bool" where
  "is_http_url w = (case w of JStr s \<Rightarrow> regex_test s | _ \<Rightarrow> False)"

definition validateClientUrl :: "logger \<Rightarrow> json \<Rightarrow> js_error + unit" where
  "validateClientUrl makeError w =
     (if is_http_url w then Inr ()
      else Inl (makeError invalidClientUrl ''Provided web3Client is an invalid HTTP(S) URL''
                  (JObj [(''web3Client'', w)])))"

definition createHttpClient :: "logger \<Rightarrow> json \<Rightarrow> js_error + AxiosInstance" where
  "createHttpClient makeError w =
     (case validateClientUrl makeError w of
        Inl error \<Rightarrow> Inl error
      | Inr _ \<Rightarrow> Inr \<lparr>baseURL = (case w of JStr s \<Rightarrow> s | _ \<Rightarrow> [])\<rparr>)"

section \<open>request\<close>

definition arrayParams :: "params \<Rightarrow> json list" where
  "arrayParams p =
     (case p of
        PUndefined \<Rightarrow> []
      | PArray xs \<Rightarrow> xs
      | PObject kvs \<Rightarrow> Object_values kvs)"

definition post_of :: "AxiosInstance \<Rightarrow> RequestArguments \<Rightarrow> post_call" where
  "post_of c args =
     \<lparr>client = c,
      path = [],
      body = obj_set
               (obj_set (case rpcOptions args of None \<Rightarrow> [] | Some o' \<Rightarrow> o')
                  ''method'' (JStr (method args)))
               ''params'' (JArr (arrayParams (params args))),
      config = (case providerOptions args of
                  None \<Rightarrow> JObj []
                | Some po \<Rightarrow> if truthy (axiosConfig po) then axiosConfig po else JObj [])\<rparr>"

text \<open>The \<^verbatim>\<open>catch\<close> block of \<^verbatim>\<open>request\<close>: the error it throws and the provider it leaves.\<close>

definition request_catch :: "js_error \<Rightarrow> provider \<Rightarrow> js_error \<times> provider" where
  "request_catch error s =
     (Error (message error),
      if code error = Some ''ECONNREFUSED'' \<and> connected s
      then emit Disconnect (JObj [(''code'', JNum 4900)]) (s\<lparr>connected := False\<rparr>)
      else s)"

text \<open>
  \<^verbatim>\<open>request\<close> up to its \<^verbatim>\<open>await\<close>: \<open>Some\<close> error when it throws before any
  \<^verbatim>\<open>post\<close>, \<open>None\<close> when it has called \<^verbatim>\<open>post\<close> and is suspended.
\<close>

definition request_begin ::
  "awaited_by \<Rightarrow> RequestArguments \<Rightarrow> provider \<Rightarrow> js_error option \<times> provider" where
  "request_begin k args s =
     (case httpClient s of
        None \<Rightarrow>
          (case request_catch (Error ''No HTTP client initiliazed'') s of
             (e, s') \<Rightarrow> (Some e, s'))
      | Some c \<Rightarrow>
          (None, s\<lparr>inflight := inflight s @ [\<lparr>awaiter = k, post = post_of c args\<rparr>]\<rparr>))"

text \<open>\<^verbatim>\<open>_getChainId\<close> and \<^verbatim>\<open>_connectToClient\<close> up to their \<^verbatim>\<open>await\<close>.\<close>

definition getChainId_begin :: "provider \<Rightarrow> js_error option \<times> provider" where
  "getChainId_begin s =
     (case request_begin GetChainId
             \<lparr>method = ''eth_chainId'', params = PArray [], rpcOptions = None,
              providerOptions = None\<rparr> s of
        (None, s') \<Rightarrow> (None, s')
      | (Some error, s') \<Rightarrow> (Some (Error (''Error getting chain id: '' @ message error)), s'))"

definition connectToClient_begin :: "provider \<Rightarrow> js_error option \<times> provider" where
  "connectToClient_begin s =
     (case getChainId_begin s of
        (None, s') \<Rightarrow> (None, s')
      | (Some error, s') \<Rightarrow>
          (Some (Error (''Error connecting to client: '' @ message error @ [CHR 0x0A]
                          @ stack error)), s'))"

text \<open>
  \<^verbatim>\<open>request\<close> from the point where \<^verbatim>\<open>post\<close> has resolved with a response. The call
  of \<^verbatim>\<open>_connectToClient\<close> is not awaited: it runs up to its own \<^verbatim>\<open>await\<close> and its
  promise is dropped.
\<close>

definition request_resume :: "AxiosResponse \<Rightarrow> provider \<Rightarrow> (js_error + json) \<times> provider" where
  "request_resume response s =
     (let s1 = (if connected s = False then snd (connectToClient_begin s) else s) in
      case get_prop (data response) ''data'' of
        Inl error \<Rightarrow> (case request_catch error s1 of (e, s2) \<Rightarrow> (Inl e, s2))
      | Inr d \<Rightarrow> (Inr (if truthy d then d else data response), s1))"

text \<open>What the promise of \<^verbatim>\<open>request\<close> settles with once \<^verbatim>\<open>post\<close> has settled.\<close>

definition request_settle ::
  "js_error + AxiosResponse \<Rightarrow> provider \<Rightarrow> (js_error + json) \<times> provider" where
  "request_settle outcome s =
     (case outcome of
        Inl error \<Rightarrow> (case request_catch error s of (e, s') \<Rightarrow> (Inl e, s'))
      | Inr response \<Rightarrow> request_resume response s)"

text \<open>\<^verbatim>\<open>_getChainId\<close> and \<^verbatim>\<open>_connectToClient\<close> after their \<^verbatim>\<open>await\<close>.\<close>

definition getChainId_resume :: "js_error + json \<Rightarrow> js_error + json" where
  "getChainId_resume r =
     (case r of
        Inl error \<Rightarrow> Inl (Error (''Error getting chain id: '' @ message error))
      | Inr result \<Rightarrow>
          (case get_prop result ''result'' of
             Inl error \<Rightarrow> Inl (Error (''Error getting chain id: '' @ message error))
           | Inr v \<Rightarrow> Inr v))"

definition connectToClient_resume ::
  "js_error + json \<Rightarrow> provider \<Rightarrow> (js_error + unit) \<times> provider" where
  "connectToClient_resume r s =
     (case r of
        Inl error \<Rightarrow>
          (Inl (Error (''Error connecting to client: '' @ message error @ [CHR 0x0A]
                         @ stack error)), s)
      | Inr chainId \<Rightarrow>
          (let s1 = emit Connect (JObj [(''chainId'', chainId)]) s;
               s2 = s1\<lparr>connected := True\<rparr>;
               s3 = (if \<not> strict_eq (clientChainId s2) JUndefined
                        \<and> \<not> strict_eq chainId (clientChainId s2)
                     then emit ChainChanged chainId s2 else s2)
           in (Inr (), s3\<lparr>clientChainId := chainId\<rparr>)))"

section \<open>The operations of the provider\<close>

definition constructor :: "logger \<Rightarrow> json \<Rightarrow> js_error + provider" where
  "constructor makeError w =
     (case createHttpClient makeError w of
        Inl error \<Rightarrow> Inl error
      | Inr c \<Rightarrow>
          Inr (snd (connectToClient_begin
                 \<lparr>httpClient = Some c, clientChainId = JUndefined, connected = False,
                  web3Client = w, emitted = [], listeners = [], inflight = []\<rparr>)))"

definition setWeb3Client :: "logger \<Rightarrow> json \<Rightarrow> provider \<Rightarrow> (js_error + unit) \<times> provider" where
  "setWeb3Client makeError w s =
     (case createHttpClient makeError w of
        Inl error \<Rightarrow> (Inl (Error (''Failed to set web3 client: '' @ message error)), s)
      | Inr c \<Rightarrow>
          (Inr (), snd (connectToClient_begin (s\<lparr>httpClient := Some c, web3Client := w\<rparr>))))"

definition on :: "Web3ProviderEvents \<Rightarrow> nat \<Rightarrow> provider \<Rightarrow> provider" where
  "on ev listener s = s\<lparr>listeners := listeners s @ [(ev, listener)]\<rparr>"

definition supportsSubscriptions :: "provider \<Rightarrow> bool" where
  "supportsSubscriptions s = False"

text \<open>A call of \<^verbatim>\<open>request\<close> from outside: it fails at once or is left suspended.\<close>

definition request :: "RequestArguments \<Rightarrow> provider \<Rightarrow> js_error option \<times> provider" where
  "request args s = request_begin Caller args s"

text \<open>
  The \<open>i\<close>-th suspended invocation sees its \<^verbatim>\<open>post\<close> settle, rejected with an error
  or resolved with a response. The invocation runs to its end, and so do the functions
  awaiting it, before anything else happens: the first component is what the promise of
  \<^verbatim>\<open>request\<close> settled with. The result of \<^verbatim>\<open>_connectToClient\<close> is dropped, as its
  promise is by every caller. The step is atomic because the code after an \<^verbatim>\<open>await\<close>
  runs as a microtask: the chain from \<^verbatim>\<open>request\<close> through \<^verbatim>\<open>_getChainId\<close> to
  \<^verbatim>\<open>_connectToClient\<close> is finished before the next response of the network is
  delivered. A probe launched on the way only gets as far as its own \<^verbatim>\<open>post\<close>.
\<close>

definition unqueue :: "nat \<Rightarrow> provider \<Rightarrow> provider" where
  "unqueue i s = s\<lparr>inflight := take i (inflight s) @ drop (Suc i) (inflight s)\<rparr>"

definition settle ::
  "nat \<Rightarrow> js_error + AxiosResponse \<Rightarrow> provider \<Rightarrow> ((js_error + json) \<times> provider) option" where
  "settle i outcome s =
     (if i < length (inflight s) then
        (let p = inflight s ! i;
             s0 = unqueue i s
         in case request_settle outcome s0 of
              (r, s1) \<Rightarrow>
                (case awaiter p of
                   Caller \<Rightarrow> Some (r, s1)
                 | GetChainId \<Rightarrow> Some (r, snd (connectToClient_resume (getChainId_resume r) s1))))
      else None)"

section \<open>Runs of the provider\<close>

text \<open>
  Everything that can happen to a provider once it is constructed: a call of one of its
  public methods, or the settling of a \<^verbatim>\<open>post\<close> that a suspended \<^verbatim>\<open>request\<close>
  waits for. No method takes a value for the connected flag.
\<close>

datatype action =
    SetWeb3Client json
  | Request RequestArguments
  | On Web3ProviderEvents nat
  | SupportsSubscriptions
  | Settle nat "js_error + AxiosResponse"

definition step :: "logger \<Rightarrow> action \<Rightarrow> provider \<Rightarrow> provider" where
  "step makeError a s =
     (case a of
        SetWeb3Client w \<Rightarrow> snd (setWeb3Client makeError w s)
      | Request args \<Rightarrow> snd (request args s)
      | On ev listener \<Rightarrow> on ev listener s
      | SupportsSubscriptions \<Rightarrow> s
      | Settle i outcome \<Rightarrow> (case settle i outcome s of None \<Rightarrow> s | Some (r, s') \<Rightarrow> s'))"

definition run :: "logger \<Rightarrow> action list \<Rightarrow> provider \<Rightarrow> provider" where
  "run makeError as s = fold (step makeError) as s"

text \<open>
  The \<open>i\<close>-th suspended invocation is a chain-id probe and \<^verbatim>\<open>_getChainId\<close> returns
  from it with a chain id.
\<close>

definition probe_succeeds :: "nat \<Rightarrow> js_error + AxiosResponse \<Rightarrow> provider \<Rightarrow> bool" where
  "probe_succeeds i outcome s =
     (i < length (inflight s) \<and> awaiter (inflight s ! i) = GetChainId \<and>
      (case settle i outcome s of
         None \<Rightarrow> False
       | Some (r, s') \<Rightarrow> (case getChainId_resume r of Inl error \<Rightarrow> False | Inr chainId \<Rightarrow> True)))"

definition is_successful_probe :: "action \<Rightarrow> provider \<Rightarrow> bool" where
  "is_successful_probe a s =
     (case a of Settle i outcome \<Rightarrow> probe_succeeds i outcome s | _ \<Rightarrow> False)"

text \<open>The \<^verbatim>\<open>post\<close> was rejected with the code \<^verbatim>\<open>ECONNREFUSED\<close>.\<close>

definition refused :: "js_error + AxiosResponse \<Rightarrow> bool" where
  "refused outcome =
     (case outcome of Inl error \<Rightarrow> code error = Some ''ECONNREFUSED'' | Inr response \<Rightarrow> False)"

definition is_refused_request :: "action \<Rightarrow> provider \<Rightarrow> bool" where
  "is_refused_request a s =
     (case a of Settle i outcome \<Rightarrow> i < length (inflight s) \<and> refused outcome | _ \<Rightarrow> False)"


text \<open>The Connect events of a log.\<close>

definition connects :: "(Web3ProviderEvents \<times> json) list \<Rightarrow> (Web3ProviderEvents \<times> json) list" where
  "connects es = filter (\<lambda>e. fst e = Connect) es"

subsection \<open>A sample run\<close>

definition sample_logger :: logger where
  "sample_logger n msg p = \<lparr>name = ''InvalidClientUrl'', code = None, message = msg, stack = msg\<rparr>"

definition localhost :: json where
  "localhost = JStr ''http://localhost:8545''"

definition answer :: "string \<Rightarrow> js_error + AxiosResponse" where
  "answer chainId = Inr \<lparr>data = JObj [(''result'', JStr chainId)]\<rparr>"

definition econnrefused :: "js_error + AxiosResponse" where
  "econnrefused =
     Inl \<lparr>name = ''Error'', code = Some ''ECONNREFUSED'',
          message = ''connect ECONNREFUSED 127.0.0.1:8545'',
          stack = ''Error: connect ECONNREFUSED 127.0.0.1:8545''\<rparr>"

definition timed_out :: "js_error + AxiosResponse" where
  "timed_out =
     Inl \<lparr>name = ''Error'', code = Some ''ECONNABORTED'',
          message = ''timeout of 1000ms exceeded'',
          stack = ''Error: timeout of 1000ms exceeded''\<rparr>"

definition blockNumber :: RequestArguments where
  "blockNumber =
     \<lparr>method = ''eth_blockNumber'', params = PUndefined, rpcOptions = None,
      providerOptions = None\<rparr>"

text \<open>The provider as constructed, before its first probe has settled.\<close>

definition started :: provider where
  "started =
     \<lparr>httpClient = Some \<lparr>baseURL = ''http://localhost:8545''\<rparr>,
      clientChainId = JUndefined, connected = False, web3Client = localhost,
      emitted = [], listeners = [],
      inflight =
        [\<lparr>awaiter = GetChainId,
          post = \<lparr>client = \<lparr>baseURL = ''http://localhost:8545''\<rparr>, path = [],
                  body = [(''method'', JStr ''eth_chainId''), (''params'', JArr [])],
                  config = JObj []\<rparr>\<rparr>]\<rparr>"

text \<open>The first probe has been answered with chain id \<^verbatim>\<open>0x1\<close>.\<close>

definition probed :: provider where
  "probed = run sample_logger [Settle 0 (answer ''0x1'')] started"

text \<open>
  The request of the first probe found the connected flag still false and launched a
  second probe; it has been answered too.
\<close>

definition settled :: provider where
  "settled = run sample_logger [Settle 0 (answer ''0x1'')] probed"

text \<open>Two calls of \<^verbatim>\<open>request\<close> are suspended.\<close>

definition busy :: provider where
  "busy = run sample_logger [Request blockNumber, Request blockNumber] settled"


definition getBalance :: RequestArguments where
  "getBalance =
     \<lparr>method = ''eth_getBalance'',
      params = PObject [(''address'', JStr ''0xabc''), (''block'', JStr ''latest'')],
      rpcOptions = Some [(''jsonrpc'', JStr ''2.0''), (''id'', JNum 1), (''params'', JNull)],
      providerOptions = None\<rparr>"

section \<open>What each part of the code reads and writes\<close>

lemma Error_fields [simp]:
  "name (Error m) = ''Error''" "code (Error m) = None" "message (Error m) = m"
  by (simp_all add: Error_def)

lemma TypeError_fields [simp]:
  "name (TypeError m) = ''TypeError''" "code (TypeError m) = None" "message (TypeError m) = m"
  by (simp_all add: TypeError_def)

lemma get_prop_code: "get_prop v k = Inl e \<Longrightarrow> code e = None"
  by (cases v) auto

lemma request_catch_result [simp]: "fst (request_catch e s) = Error (message e)"
  by (simp add: request_catch_def)

lemma request_catch_frame [simp]:
  "httpClient (snd (request_catch e s)) = httpClient s"
  "web3Client (snd (request_catch e s)) = web3Client s"
  "clientChainId (snd (request_catch e s)) = clientChainId s"
  "listeners (snd (request_catch e s)) = listeners s"
  "inflight (snd (request_catch e s)) = inflight s"
  by (simp_all add: request_catch_def emit_def)

lemma request_catch_connected:
  "connected (snd (request_catch e s)) = (connected s \<and> code e \<noteq> Some ''ECONNREFUSED'')"
  by (auto simp add: request_catch_def emit_def)

lemma request_catch_emitted:
  "emitted (snd (request_catch e s)) =
     emitted s @ (if code e = Some ''ECONNREFUSED'' \<and> connected s
                  then [(Disconnect, JObj [(''code'', JNum 4900)])] else [])"
  by (simp add: request_catch_def emit_def)

lemma request_catch_quiet:
  "\<not> (code e = Some ''ECONNREFUSED'' \<and> connected s) \<Longrightarrow> snd (request_catch e s) = s"
  by (auto simp add: request_catch_def)

lemma request_begin_cases:
  "request_begin k args s =
     (case httpClient s of
        None \<Rightarrow> (Some (Error ''No HTTP client initiliazed''), s)
      | Some c \<Rightarrow> (None, s\<lparr>inflight := inflight s @ [\<lparr>awaiter = k, post = post_of c args\<rparr>]\<rparr>))"
  by (simp add: request_begin_def request_catch_def split: option.splits)

lemma connectToClient_begin_state:
  "snd (connectToClient_begin s) =
     (case httpClient s of
        None \<Rightarrow> s
      | Some c \<Rightarrow>
          s\<lparr>inflight := inflight s @
              [\<lparr>awaiter = GetChainId,
                post = post_of c \<lparr>method = ''eth_chainId'', params = PArray [],
                                   rpcOptions = None, providerOptions = None\<rparr>\<rparr>]\<rparr>)"
  by (simp add: connectToClient_begin_def getChainId_begin_def request_begin_cases
      split: option.splits)

lemma connectToClient_begin_frame [simp]:
  "httpClient (snd (connectToClient_begin s)) = httpClient s"
  "web3Client (snd (connectToClient_begin s)) = web3Client s"
  "clientChainId (snd (connectToClient_begin s)) = clientChainId s"
  "connected (snd (connectToClient_begin s)) = connected s"
  "emitted (snd (connectToClient_begin s)) = emitted s"
  "listeners (snd (connectToClient_begin s)) = listeners s"
  by (simp_all add: connectToClient_begin_state split: option.splits)

lemma request_settle_result:
  "fst (request_settle outcome s) =
     (case outcome of
        Inl error \<Rightarrow> Inl (Error (message error))
      | Inr response \<Rightarrow>
          (case get_prop (data response) ''data'' of
             Inl error \<Rightarrow> Inl (Error (message error))
           | Inr d \<Rightarrow> Inr (if truthy d then d else data response)))"
  by (simp add: request_settle_def request_resume_def request_catch_def Let_def
      split: sum.splits prod.splits)

lemma request_settle_frame [simp]:
  "httpClient (snd (request_settle outcome s)) = httpClient s"
  "web3Client (snd (request_settle outcome s)) = web3Client s"
  "clientChainId (snd (request_settle outcome s)) = clientChainId s"
  "listeners (snd (request_settle outcome s)) = listeners s"
  by (simp_all add: request_settle_def request_resume_def request_catch_def emit_def Let_def
      split: sum.splits prod.splits)

lemma request_settle_connected:
  "connected (snd (request_settle outcome s)) = (connected s \<and> \<not> refused outcome)"
  by (auto simp add: request_settle_def request_resume_def request_catch_def emit_def Let_def
      refused_def dest: get_prop_code split: sum.splits prod.splits)

lemma request_settle_emitted:
  "emitted (snd (request_settle outcome s)) =
     emitted s @ (if refused outcome \<and> connected s
                  then [(Disconnect, JObj [(''code'', JNum 4900)])] else [])"
  by (auto simp add: request_settle_def request_resume_def request_catch_def emit_def Let_def
      refused_def dest: get_prop_code split: sum.splits prod.splits)

lemma connectToClient_resume_frame [simp]:
  "httpClient (snd (connectToClient_resume r s)) = httpClient s"
  "web3Client (snd (connectToClient_resume r s)) = web3Client s"
  "listeners (snd (connectToClient_resume r s)) = listeners s"
  "inflight (snd (connectToClient_resume r s)) = inflight s"
  by (simp_all add: connectToClient_resume_def emit_def Let_def split: sum.splits)

lemma strict_eq_undefined [simp]: "strict_eq v JUndefined = (v = JUndefined)"
  by (cases v) simp_all

lemma strict_eq_primitive: "primitive a \<or> primitive b \<Longrightarrow> strict_eq a b = (a = b)"
  by (cases a; cases b) simp_all

lemma connectToClient_resume_Inr:
  "snd (connectToClient_resume (Inr chainId) s) =
     s\<lparr>emitted := emitted s @ [(Connect, JObj [(''chainId'', chainId)])]
          @ (if clientChainId s \<noteq> JUndefined \<and> \<not> strict_eq chainId (clientChainId s)
             then [(ChainChanged, chainId)] else []),
       connected := True, clientChainId := chainId\<rparr>"
  by (simp add: connectToClient_resume_def emit_def Let_def)

lemma connectToClient_resume_Inl [simp]:
  "snd (connectToClient_resume (Inl e) s) = s"
  by (simp add: connectToClient_resume_def)

text \<open>The settling of a \<^verbatim>\<open>post\<close>, in terms of its parts.\<close>

lemma unqueue_frame [simp]:
  "httpClient (unqueue i s) = httpClient s"
  "web3Client (unqueue i s) = web3Client s"
  "clientChainId (unqueue i s) = clientChainId s"
  "connected (unqueue i s) = connected s"
  "emitted (unqueue i s) = emitted s"
  "listeners (unqueue i s) = listeners s"
  "inflight (unqueue i s) = take i (inflight s) @ drop (Suc i) (inflight s)"
  by (simp_all add: unqueue_def)

lemma settle_eq:
  "settle i outcome s =
     (if i < length (inflight s) then
        Some (fst (request_settle outcome (unqueue i s)),
          (case awaiter (inflight s ! i) of
             Caller \<Rightarrow> snd (request_settle outcome (unqueue i s))
           | GetChainId \<Rightarrow>
               snd (connectToClient_resume
                      (getChainId_resume (fst (request_settle outcome (unqueue i s))))
                      (snd (request_settle outcome (unqueue i s))))))
      else None)"
  by (simp add: settle_def Let_def split: prod.splits awaited_by.splits)

lemma settle_frame:
  assumes "settle i outcome s = Some (r, s')"
  shows "httpClient s' = httpClient s" "web3Client s' = web3Client s" "listeners s' = listeners s"
  using assms by (auto simp add: settle_eq split: if_splits awaited_by.splits)

lemma getChainId_resume_Inl [simp]:
  "getChainId_resume (Inl e) = Inl (Error (''Error getting chain id: '' @ message e))"
  by (simp add: getChainId_resume_def)

lemma settle_failed:
  assumes "settle i outcome s = Some (Inl e, s')"
  shows "i < length (inflight s)" "fst (request_settle outcome (unqueue i s)) = Inl e"
    "s' = snd (request_settle outcome (unqueue i s))"
  using assms by (auto simp add: settle_eq split: if_splits awaited_by.splits)

lemma refused_result:
  "refused outcome \<Longrightarrow> \<exists>e. fst (request_settle outcome s) = Inl e"
  by (cases outcome) (simp_all add: refused_def request_settle_result)

lemma settle_when_failed:
  assumes "i < length (inflight s)" and "fst (request_settle outcome (unqueue i s)) = Inl e"
  shows "settle i outcome s = Some (Inl e, snd (request_settle outcome (unqueue i s)))"
  using assms by (simp add: settle_eq split: awaited_by.splits)

lemma settle_refused:
  assumes "settle i outcome s = Some (r, s')" and "refused outcome"
  shows "s' = snd (request_settle outcome (unqueue i s))"
proof -
  have i: "i < length (inflight s)"
    using assms(1) by (simp add: settle_eq split: if_splits)
  obtain e where "fst (request_settle outcome (unqueue i s)) = Inl e"
    using refused_result [OF assms(2)] by blast
  with i have "settle i outcome s = Some (Inl e, snd (request_settle outcome (unqueue i s)))"
    by (rule settle_when_failed)
  with assms(1) show ?thesis by simp
qed

lemma request_settle_inflight_rejected [simp]:
  "inflight (snd (request_settle (Inl error) s)) = inflight s"
  by (simp add: request_settle_def split: prod.splits)
    (metis request_catch_frame(5) snd_conv)


lemma request_settle_ok_quiet:
  assumes "fst (request_settle outcome s) = Inr v"
  shows "\<not> refused outcome"
  using assms by (cases outcome) (simp_all add: request_settle_result refused_def)

lemma settle_probe_ok:
  assumes "settle i outcome s = Some (r, s')" and "awaiter (inflight s ! i) = GetChainId"
    and "getChainId_resume r = Inr chainId"
  shows "s' = snd (connectToClient_resume (Inr chainId) (snd (request_settle outcome (unqueue i s))))"
    and "\<not> refused outcome"
proof -
  have r: "r = fst (request_settle outcome (unqueue i s))"
    using assms(1) by (auto simp add: settle_eq split: if_splits)
  show "s' = snd (connectToClient_resume (Inr chainId) (snd (request_settle outcome (unqueue i s))))"
    using assms by (auto simp add: settle_eq split: if_splits)
  obtain v where "r = Inr v"
    using assms(3) by (cases r) simp_all
  with r show "\<not> refused outcome"
    using request_settle_ok_quiet by metis
qed

lemma probe_succeeds_iff:
  "probe_succeeds i outcome s =
     (i < length (inflight s) \<and> awaiter (inflight s ! i) = GetChainId \<and>
      (\<exists>chainId. getChainId_resume (fst (request_settle outcome (unqueue i s))) = Inr chainId))"
  by (auto simp add: probe_succeeds_def settle_eq split: sum.splits)

lemma settle_state:
  assumes "settle i outcome s = Some (r, s')"
  shows "i < length (inflight s)"
    and "awaiter (inflight s ! i) = Caller \<Longrightarrow> s' = snd (request_settle outcome (unqueue i s))"
    and "awaiter (inflight s ! i) = GetChainId \<Longrightarrow>
           s' = snd (connectToClient_resume
                      (getChainId_resume (fst (request_settle outcome (unqueue i s))))
                      (snd (request_settle outcome (unqueue i s))))"
  using assms by (auto simp add: settle_eq split: if_splits)

lemma settle_connected:
  assumes "settle i outcome s = Some (r, s')"
  shows "connected s' = (probe_succeeds i outcome s \<or> (connected s \<and> \<not> refused outcome))"
proof (cases "awaiter (inflight s ! i)")
  case Caller
  then have "s' = snd (request_settle outcome (unqueue i s))"
    using assms by (simp add: settle_state)
  with Caller show ?thesis
    by (simp add: probe_succeeds_iff request_settle_connected)
next
  case GetChainId
  then have s': "s' = snd (connectToClient_resume
                      (getChainId_resume (fst (request_settle outcome (unqueue i s))))
                      (snd (request_settle outcome (unqueue i s))))"
    using assms by (simp add: settle_state)
  have i: "i < length (inflight s)"
    using assms by (rule settle_state)
  show ?thesis
  proof (cases "getChainId_resume (fst (request_settle outcome (unqueue i s)))")
    case (Inl e)
    with GetChainId i show ?thesis
      by (simp add: s' probe_succeeds_iff request_settle_connected)
  next
    case (Inr chainId)
    with GetChainId i show ?thesis
      by (simp add: s' probe_succeeds_iff connectToClient_resume_Inr)
  qed
qed

lemma setWeb3Client_connected [simp]:
  "connected (snd (setWeb3Client makeError w s)) = connected s"
  by (simp add: setWeb3Client_def split: sum.splits)

lemma constructor_connected:
  "constructor makeError w = Inr s0 \<Longrightarrow> connected s0 = False"
  by (auto simp add: constructor_def split: sum.splits)

lemma step_connected:
  "connected (step makeError a s) =
     (is_successful_probe a s \<or> (connected s \<and> \<not> is_refused_request a s))"
proof (cases a)
  case (Settle i outcome)
  show ?thesis
  proof (cases "settle i outcome s")
    case None
    then have "\<not> i < length (inflight s)"
      by (simp add: settle_eq split: if_splits)
    with None Settle show ?thesis
      by (simp add: step_def is_successful_probe_def is_refused_request_def probe_succeeds_def)
  next
    case (Some p)
    obtain r s' where p: "p = (r, s')" by (cases p)
    have "i < length (inflight s)"
      using Some by (simp add: settle_eq split: if_splits)
    with Some Settle p settle_connected [of i outcome s r s'] show ?thesis
      by (simp add: step_def is_successful_probe_def is_refused_request_def)
  qed
qed (simp_all add: step_def is_successful_probe_def is_refused_request_def request_def
       request_begin_cases on_def split: option.splits)

lemma settle_result:
  "i < length (inflight s) \<Longrightarrow>
     map_option fst (settle i outcome s) = Some (fst (request_settle outcome (unqueue i s)))"
  by (simp add: settle_eq)

lemma map_of_replaced:
  "k \<in> fst ` set kvs \<Longrightarrow>
     map_of (map (\<lambda>(k', v'). if k' = k then (k', v) else (k', v')) kvs) k = Some v"
proof (induction kvs)
  case Nil
  then show ?case by simp
next
  case (Cons p kvs)
  obtain k' v' where p: "p = (k', v')" by (cases p)
  show ?case
  proof (cases "k' = k")
    case True
    with p show ?thesis by simp
  next
    case False
    with p Cons show ?thesis by simp
  qed
qed

lemma map_of_obj_set [simp]: "map_of (obj_set kvs k v) k = Some v"
proof (cases "k \<in> fst ` set kvs")
  case True
  then show ?thesis by (simp add: obj_set_def map_of_replaced)
next
  case False
  then have "map_of kvs k = None"
    by (simp add: map_of_eq_None_iff)
  with False show ?thesis by (simp add: obj_set_def map_add_def)
qed

lemma connects_append [simp]: "connects (xs @ ys) = connects xs @ connects ys"
  by (simp add: connects_def)

lemma settle_connects:
  assumes "settle i outcome s = Some (r, s')"
  shows "connects (emitted s') =
           connects (emitted s) @
           (if awaiter (inflight s ! i) = GetChainId
            then (case getChainId_resume r of
                    Inl error \<Rightarrow> []
                  | Inr chainId \<Rightarrow> [(Connect, JObj [(''chainId'', chainId)])])
            else [])"
proof -
  have r: "r = fst (request_settle outcome (unqueue i s))"
    using assms by (auto simp add: settle_eq split: if_splits)
  show ?thesis
  proof (cases "awaiter (inflight s ! i)")
    case Caller
    then have "s' = snd (request_settle outcome (unqueue i s))"
      using assms by (simp add: settle_state)
    with Caller show ?thesis
      by (simp add: request_settle_emitted connects_def)
  next
    case GetChainId
    then have s': "s' = snd (connectToClient_resume
                      (getChainId_resume (fst (request_settle outcome (unqueue i s))))
                      (snd (request_settle outcome (unqueue i s))))"
      using assms by (simp add: settle_state)
    show ?thesis
    proof (cases "getChainId_resume r")
      case (Inl e)
      with GetChainId r show ?thesis
        by (simp add: s' request_settle_emitted connects_def)
    next
      case (Inr chainId)
      with GetChainId r show ?thesis
        by (simp add: s' connectToClient_resume_Inr request_settle_emitted connects_def)
    qed
  qed
qed

lemma step_connects_other:
  assumes "\<not> is_successful_probe a s"
  shows "connects (emitted (step makeError a s)) = connects (emitted s)"
proof (cases a)
  case (Settle i outcome)
  show ?thesis
  proof (cases "settle i outcome s")
    case None
    with Settle show ?thesis by (simp add: step_def)
  next
    case (Some p)
    obtain r s' where p: "p = (r, s')" by (cases p)
    have i: "i < length (inflight s)"
      using Some by (simp add: settle_eq split: if_splits)
    have r: "r = fst (request_settle outcome (unqueue i s))"
      using Some p by (auto simp add: settle_eq split: if_splits)
    have "awaiter (inflight s ! i) = GetChainId \<Longrightarrow> \<exists>e. getChainId_resume r = Inl e"
      using assms Settle i r
      by (cases "getChainId_resume r") (auto simp add: is_successful_probe_def probe_succeeds_iff)
    with settle_connects [of i outcome s r s'] Some p Settle show ?thesis
      by (auto simp add: step_def)
  qed
qed (simp_all add: step_def request_def request_begin_cases on_def setWeb3Client_def
       split: option.splits sum.splits)

lemma constructor_state:
  assumes "constructor makeError w = Inr s0"
  shows "emitted s0 = []" and "clientChainId s0 = JUndefined"
    and "\<exists>p. inflight s0 = [p] \<and> awaiter p = GetChainId"
  using assms
  by (auto simp add: constructor_def connectToClient_begin_state split: sum.splits)

lemma constructor_valid:
  "is_http_url w \<Longrightarrow> \<exists>s0. constructor makeError w = Inr s0"
  by (simp add: constructor_def createHttpClient_def validateClientUrl_def)

lemma constructor_localhost: "constructor sample_logger localhost = Inr started"
  by (simp add: started_def constructor_def createHttpClient_def validateClientUrl_def
      is_http_url_def localhost_def regex_test_def canonicalize_def
      connectToClient_begin_state post_of_def arrayParams_def obj_set_def)

text \<open>
  Startup. When the first probe of a constructed provider succeeds, its own request has
  found the connected flag still false (the flag is set only later, in
  \<^verbatim>\<open>_connectToClient\<close>) and has launched a second probe, which is in flight; when
  that one succeeds as well, a second Connect event is emitted.
\<close>

lemma constructor_client:
  assumes "constructor makeError w = Inr s0"
  shows "\<exists>c. httpClient s0 = Some c" and "connected s0 = False"
  using assms by (auto simp add: constructor_def split: sum.splits)

lemma resolved_when_ok:
  assumes "fst (request_settle outcome s) = Inr v"
  shows "\<exists>response. outcome = Inr response"
  using assms by (cases outcome) (simp_all add: request_settle_result)

lemma request_resume_launches:
  assumes "connected s = False" and "httpClient s = Some c"
  shows "\<exists>p. inflight (snd (request_resume response s)) = inflight s @ [p] \<and>
               awaiter p = GetChainId"
  using assms
  by (simp add: request_resume_def request_catch_def emit_def connectToClient_begin_state Let_def
      split: sum.splits)

lemma startup_second_probe:
  assumes c: "constructor makeError w = Inr s0" and s: "settle 0 outcome s0 = Some (r, s1)"
    and g: "getChainId_resume r = Inr chainId"
  shows "connected s1" and "emitted s1 = [(Connect, JObj [(''chainId'', chainId)])]"
    and "\<exists>p. inflight s1 = [p] \<and> awaiter p = GetChainId"
proof -
  obtain p where p: "inflight s0 = [p]" "awaiter p = GetChainId"
    using constructor_state(3) [OF c] by blast
  then have aw: "awaiter (inflight s0 ! 0) = GetChainId" by simp
  have s1: "s1 = snd (connectToClient_resume (Inr chainId)
                       (snd (request_settle outcome (unqueue 0 s0))))"
    and q: "\<not> refused outcome"
    using s aw g by (rule settle_probe_ok)+
  show "connected s1"
    by (simp add: s1 connectToClient_resume_Inr)
  show "emitted s1 = [(Connect, JObj [(''chainId'', chainId)])]"
    using q constructor_state(1,2) [OF c]
    by (simp add: s1 connectToClient_resume_Inr request_settle_emitted)
  have r: "r = fst (request_settle outcome (unqueue 0 s0))"
    using s by (auto simp add: settle_eq split: if_splits)
  obtain v where "r = Inr v"
    using g by (cases r) simp_all
  with r obtain response where o: "outcome = Inr response"
    using resolved_when_ok [of outcome "unqueue 0 s0" v] by auto
  obtain cl where cl: "httpClient s0 = Some cl"
    using constructor_client(1) [OF c] by blast
  have "\<exists>p'. inflight (snd (request_resume response (unqueue 0 s0))) =
               inflight (unqueue 0 s0) @ [p'] \<and> awaiter p' = GetChainId"
    using constructor_client(2) [OF c] cl by (intro request_resume_launches) simp_all
  then show "\<exists>p. inflight s1 = [p] \<and> awaiter p = GetChainId"
    using p o by (simp add: s1 request_settle_def)
qed

lemma startup_second_connect:
  assumes c: "constructor makeError w = Inr s0" and s: "settle 0 outcome s0 = Some (r, s1)"
    and g: "getChainId_resume r = Inr chainId"
    and s': "settle 0 outcome' s1 = Some (r', s2)" and g': "getChainId_resume r' = Inr chainId'"
  shows "connects (emitted s2) =
           [(Connect, JObj [(''chainId'', chainId)]), (Connect, JObj [(''chainId'', chainId')])]"
proof -
  obtain p where "inflight s1 = [p]" "awaiter p = GetChainId"
    using startup_second_probe(3) [OF c s g] by blast
  then have "awaiter (inflight s1 ! 0) = GetChainId" by simp
  with settle_connects [OF s'] g' startup_second_probe(2) [OF c s g]
  show ?thesis by (simp add: connects_def)
qed

section \<open>The claims of the specification\<close>

text \<open>
  C1. The connected flag is false in a provider as constructed. It becomes true exactly
  when a chain-id probe succeeds: every successful probe leaves it true, and no other
  event takes it from false to true. It goes from true to false only when the \<^verbatim>\<open>post\<close>
  of a request is rejected with \<^verbatim>\<open>ECONNREFUSED\<close>. This holds for every action on the
  provider, and no action carries a value for the flag.
\<close>

theorem connected_flag_transitions:
  "(constructor makeError w = Inr s0 \<longrightarrow> connected s0 = False) \<and>
   (is_successful_probe a s \<longrightarrow> connected (step makeError a s)) \<and>
   (\<not> connected s \<and> connected (step makeError a s) \<longrightarrow> is_successful_probe a s) \<and>
   (connected s \<and> \<not> connected (step makeError a s) \<longrightarrow>
      is_refused_request a s \<and> \<not> is_successful_probe a s)"
  using constructor_connected [of makeError w s0] step_connected [of makeError a s]
  by blast

theorem connected_flag_transitions_witness:
  "constructor sample_logger localhost = Inr started \<and> connected started = False \<and>
   is_successful_probe (Settle 0 (answer ''0x1'')) started \<and>
   connected (step sample_logger (Settle 0 (answer ''0x1'')) started) \<and>
   connected busy \<and> \<not> connected (step sample_logger (Settle 0 econnrefused) busy) \<and>
   is_refused_request (Settle 0 econnrefused) busy"
proof -
  have p: "is_successful_probe (Settle 0 (answer ''0x1'')) started" by code_simp
  have c: "connected busy \<and> \<not> connected (step sample_logger (Settle 0 econnrefused) busy)"
    by code_simp
  have d: "\<not> connected started" by code_simp
  from connected_flag_transitions
         [of sample_logger localhost started "Settle 0 (answer ''0x1'')" started]
       connected_flag_transitions
         [of sample_logger localhost started "Settle 0 econnrefused" busy]
       constructor_localhost p c d
  show ?thesis by simp
qed

text \<open>
  C2. When the \<^verbatim>\<open>post\<close> of a call of \<^verbatim>\<open>request\<close> is rejected with the code
  \<^verbatim>\<open>ECONNREFUSED\<close> while the connected flag is true, the flag becomes false and
  exactly one event is emitted, Disconnect with payload \<^verbatim>\<open>{ code: 4900 }\<close>. A second
  rejection of that kind right after it emits nothing and leaves the flag false.
\<close>

theorem refused_while_connected_disconnects_once:
  assumes "settle i outcome s = Some (r, s')" and "refused outcome" and "connected s"
  shows "connected s' = False \<and>
         emitted s' = emitted s @ [(Disconnect, JObj [(''code'', JNum 4900)])] \<and>
         (settle j outcome2 s' = Some (r2, s'') \<and> refused outcome2 \<longrightarrow>
            connected s'' = False \<and> emitted s'' = emitted s')"
proof -
  have s': "s' = snd (request_settle outcome (unqueue i s))"
    using assms(1,2) by (rule settle_refused)
  have off: "connected s' = False"
    using assms(2) by (simp add: s' request_settle_connected)
  have ev: "emitted s' = emitted s @ [(Disconnect, JObj [(''code'', JNum 4900)])]"
    using assms(2,3) by (simp add: s' request_settle_emitted)
  have again: "connected s'' = False \<and> emitted s'' = emitted s'"
    if "settle j outcome2 s' = Some (r2, s'')" and "refused outcome2"
  proof -
    have "s'' = snd (request_settle outcome2 (unqueue j s'))"
      using that by (rule settle_refused)
    then show ?thesis
      using off by (simp add: request_settle_connected request_settle_emitted)
  qed
  from off ev again show ?thesis by blast
qed

theorem refused_while_connected_disconnects_once_witness:
  "settle 0 econnrefused busy =
     Some (Inl (Error ''connect ECONNREFUSED 127.0.0.1:8545''),
           run sample_logger [Settle 0 econnrefused] busy) \<and>
   settle 0 econnrefused (run sample_logger [Settle 0 econnrefused] busy) =
     Some (Inl (Error ''connect ECONNREFUSED 127.0.0.1:8545''),
           run sample_logger [Settle 0 econnrefused, Settle 0 econnrefused] busy) \<and>
   refused econnrefused \<and> connected busy \<and>
   connected (run sample_logger [Settle 0 econnrefused] busy) = False \<and>
   emitted (run sample_logger [Settle 0 econnrefused] busy) =
     emitted busy @ [(Disconnect, JObj [(''code'', JNum 4900)])] \<and>
   connected (run sample_logger [Settle 0 econnrefused, Settle 0 econnrefused] busy) = False \<and>
   emitted (run sample_logger [Settle 0 econnrefused, Settle 0 econnrefused] busy) =
     emitted (run sample_logger [Settle 0 econnrefused] busy)"
proof -
  have first: "settle 0 econnrefused busy =
     Some (Inl (Error ''connect ECONNREFUSED 127.0.0.1:8545''),
           run sample_logger [Settle 0 econnrefused] busy)"
    by code_simp
  have second: "settle 0 econnrefused (run sample_logger [Settle 0 econnrefused] busy) =
     Some (Inl (Error ''connect ECONNREFUSED 127.0.0.1:8545''),
           run sample_logger [Settle 0 econnrefused, Settle 0 econnrefused] busy)"
    by code_simp
  have r: "refused econnrefused" by code_simp
  have c: "connected busy" by code_simp
  from refused_while_connected_disconnects_once [OF first r c, of 0 econnrefused _
         "run sample_logger [Settle 0 econnrefused, Settle 0 econnrefused] busy"]
       first second r c
  show ?thesis by simp
qed

text \<open>
  C3, as amended. A call of \<^verbatim>\<open>request\<close> whose \<^verbatim>\<open>post\<close> resolved returns the
  \<^verbatim>\<open>data\<close> field of the response body when that field is truthy, and the body
  unchanged otherwise (a body that is null or undefined makes the call fail). So
  \<^verbatim>\<open>{ data: { result: "0x1" } }\<close> yields \<^verbatim>\<open>{ result: "0x1" }\<close>, and
  \<^verbatim>\<open>{ result: "0x1" }\<close> yields itself.
\<close>

theorem request_unwraps_truthy_data:
  assumes "i < length (inflight s)"
  shows "map_option fst (settle i (Inr response) s) =
           Some (case get_prop (data response) ''data'' of
                   Inl error \<Rightarrow> Inl (Error (message error))
                 | Inr d \<Rightarrow> Inr (if truthy d then d else data response)) \<and>
         map_option fst
           (settle i (Inr \<lparr>data = JObj [(''data'', JObj [(''result'', JStr ''0x1'')])]\<rparr>) s) =
           Some (Inr (JObj [(''result'', JStr ''0x1'')])) \<and>
         map_option fst (settle i (Inr \<lparr>data = JObj [(''result'', JStr ''0x1'')]\<rparr>) s) =
           Some (Inr (JObj [(''result'', JStr ''0x1'')]))"
  using assms by (simp add: settle_result request_settle_result)

theorem request_unwraps_truthy_data_witness:
  "0 < length (inflight busy) \<and>
   map_option fst (settle 0 (Inr \<lparr>data = JObj [(''data'', JStr ''0x10'')]\<rparr>) busy) =
     Some (Inr (JStr ''0x10'')) \<and>
   map_option fst (settle 0 (Inr \<lparr>data = JObj [(''data'', JStr [])]\<rparr>) busy) =
     Some (Inr (JObj [(''data'', JStr [])])) \<and>
   map_option fst (settle 0 (Inr \<lparr>data = JNull\<rparr>) busy) =
     Some (Inl (Error ''Cannot read properties of null (reading 'data')''))"
proof -
  have l: "0 < length (inflight busy)" by code_simp
  from request_unwraps_truthy_data [OF l, of "\<lparr>data = JObj [(''data'', JStr ''0x10'')]\<rparr>"]
       request_unwraps_truthy_data [OF l, of "\<lparr>data = JObj [(''data'', JStr [])]\<rparr>"]
       request_unwraps_truthy_data [OF l, of "\<lparr>data = JNull\<rparr>"] l
  show ?thesis by simp
qed

text \<open>
  C3 as stated fails: the body \<^verbatim>\<open>{ data: false }\<close> has a \<^verbatim>\<open>data\<close> field, and the
  call returns the whole body, not the field.
\<close>

theorem falsy_data_field_not_unwrapped:
  "get_prop (JObj [(''data'', JBool False)]) ''data'' = Inr (JBool False) \<and>
   map_option fst (settle 0 (Inr \<lparr>data = JObj [(''data'', JBool False)]\<rparr>) busy) =
     Some (Inr (JObj [(''data'', JBool False)])) \<and>
   map_option fst (settle 0 (Inr \<lparr>data = JObj [(''data'', JBool False)]\<rparr>) busy) \<noteq>
     Some (Inr (JBool False))"
proof -
  have "map_option fst (settle 0 (Inr \<lparr>data = JObj [(''data'', JBool False)]\<rparr>) busy) =
     Some (Inr (JObj [(''data'', JBool False)]))"
    by code_simp
  then show ?thesis by (simp only:) simp
qed

text \<open>
  C4. \<^verbatim>\<open>request\<close> normalizes \<^verbatim>\<open>args.params\<close>: undefined becomes the empty
  sequence, a sequence is passed as it is, and a keyed mapping becomes the sequence of
  its values in enumeration order, so \<^verbatim>\<open>{ a: 1, b: 2 }\<close> becomes \<^verbatim>\<open>[1, 2]\<close>. With a
  client bound, the call posts a body whose \<^verbatim>\<open>params\<close> is that sequence.
\<close>

theorem params_normalized:
  "arrayParams PUndefined = [] \<and>
   arrayParams (PArray xs) = xs \<and>
   arrayParams (PObject kvs) = map snd kvs \<and>
   arrayParams (PObject [(''a'', JNum 1), (''b'', JNum 2)]) = [JNum 1, JNum 2] \<and>
   (httpClient s = Some c \<longrightarrow>
      request args s =
        (None, s\<lparr>inflight := inflight s @ [\<lparr>awaiter = Caller, post = post_of c args\<rparr>]\<rparr>) \<and>
      get_prop (JObj (body (post_of c args))) ''params'' =
        Inr (JArr (arrayParams (params args))))"
  by (simp add: arrayParams_def Object_values_def request_def request_begin_cases post_of_def)

theorem params_normalized_witness:
  "httpClient probed = Some \<lparr>baseURL = ''http://localhost:8545''\<rparr> \<and>
   body (post (last (inflight (snd (request getBalance probed))))) =
     [(''jsonrpc'', JStr ''2.0''), (''id'', JNum 1),
      (''params'', JArr [JStr ''0xabc'', JStr ''latest'']),
      (''method'', JStr ''eth_getBalance'')] \<and>
   get_prop (JObj (body (post_of \<lparr>baseURL = ''http://localhost:8545''\<rparr> getBalance))) ''params'' =
     Inr (JArr [JStr ''0xabc'', JStr ''latest''])"
proof -
  have h: "httpClient probed = Some \<lparr>baseURL = ''http://localhost:8545''\<rparr>" by code_simp
  have a: "arrayParams (params getBalance) = [JStr ''0xabc'', JStr ''latest'']" by code_simp
  have b: "body (post_of \<lparr>baseURL = ''http://localhost:8545''\<rparr> getBalance) =
     [(''jsonrpc'', JStr ''2.0''), (''id'', JNum 1),
      (''params'', JArr [JStr ''0xabc'', JStr ''latest'']),
      (''method'', JStr ''eth_getBalance'')]" by code_simp
  from params_normalized [of _ _ probed "\<lparr>baseURL = ''http://localhost:8545''\<rparr>" getBalance]
    h a b
  show ?thesis by simp
qed

text \<open>
  C5, as amended. For a value that is not a string matching \<^verbatim>\<open>^https?://\<close> without
  regard to case, construction fails with the InvalidClientUrl error that the logger
  makes, and no provider comes to exist; \<^verbatim>\<open>setWeb3Client\<close> fails with a generic error
  whose message is \<^verbatim>\<open>Failed to set web3 client: \<close> followed by the message of that
  error, and leaves the provider, its client handle and its stored endpoint as they were.
\<close>

theorem invalid_url_rejected:
  assumes "\<not> is_http_url w"
  shows "constructor makeError w =
           Inl (makeError invalidClientUrl ''Provided web3Client is an invalid HTTP(S) URL''
                  (JObj [(''web3Client'', w)])) \<and>
         setWeb3Client makeError w s =
           (Inl (Error (''Failed to set web3 client: '' @
                   message (makeError invalidClientUrl
                              ''Provided web3Client is an invalid HTTP(S) URL''
                              (JObj [(''web3Client'', w)])))), s) \<and>
         httpClient (snd (setWeb3Client makeError w s)) = httpClient s \<and>
         web3Client (snd (setWeb3Client makeError w s)) = web3Client s"
  using assms
  by (simp add: constructor_def setWeb3Client_def createHttpClient_def validateClientUrl_def)

theorem invalid_url_rejected_witness:
  "\<not> is_http_url (JStr ''ftp://localhost:8545'') \<and> \<not> is_http_url (JNum 8545) \<and>
   constructor sample_logger (JStr ''ftp://localhost:8545'') =
     Inl \<lparr>name = ''InvalidClientUrl'', code = None,
          message = ''Provided web3Client is an invalid HTTP(S) URL'',
          stack = ''Provided web3Client is an invalid HTTP(S) URL''\<rparr> \<and>
   setWeb3Client sample_logger (JNum 8545) probed =
     (Inl (Error ''Failed to set web3 client: Provided web3Client is an invalid HTTP(S) URL''),
      probed)"
proof -
  have a: "\<not> is_http_url (JStr ''ftp://localhost:8545'')"
    by (simp add: is_http_url_def regex_test_def canonicalize_def)
  have b: "\<not> is_http_url (JNum 8545)"
    by (simp add: is_http_url_def)
  from invalid_url_rejected [OF a, of sample_logger]
       invalid_url_rejected [OF b, of sample_logger probed] a b
  show ?thesis by (simp add: sample_logger_def)
qed

text \<open>
  C5 as stated fails for \<^verbatim>\<open>setWeb3Client\<close>: what it throws is not the
  InvalidClientUrl error of the logger but a new generic error.
\<close>

theorem setWeb3Client_error_is_generic:
  "fst (setWeb3Client sample_logger (JStr ''ftp://localhost:8545'') probed) =
     Inl (Error ''Failed to set web3 client: Provided web3Client is an invalid HTTP(S) URL'') \<and>
   fst (setWeb3Client sample_logger (JStr ''ftp://localhost:8545'') probed) \<noteq>
     Inl (sample_logger invalidClientUrl ''Provided web3Client is an invalid HTTP(S) URL''
            (JObj [(''web3Client'', JStr ''ftp://localhost:8545'')]))"
proof -
  have a: "\<not> is_http_url (JStr ''ftp://localhost:8545'')"
    by (simp add: is_http_url_def regex_test_def canonicalize_def)
  then have "fst (setWeb3Client sample_logger (JStr ''ftp://localhost:8545'') probed) =
     Inl (Error ''Failed to set web3 client: Provided web3Client is an invalid HTTP(S) URL'')"
    by (simp add: setWeb3Client_def createHttpClient_def validateClientUrl_def
        sample_logger_def)
  then show ?thesis
    by (simp only:) (simp add: sample_logger_def Error_def)
qed

text \<open>
  C6. A Connect event with payload \<^verbatim>\<open>{ chainId }\<close> is to be emitted exactly on a
  successful chain-id probe while previously disconnected or at startup, so that after a
  successful initial probe exactly one Connect has been emitted. The code does not keep
  to this. Evaluated on a provider constructed for \<^verbatim>\<open>http://localhost:8545\<close> whose
  endpoint answers every \<^verbatim>\<open>post\<close> with \<^verbatim>\<open>{ result: "0x1" }\<close>: when the initial
  probe succeeds, one Connect is emitted and the flag is true, but a second probe is in
  flight, launched by the guard \<^verbatim>\<open>if (this._connected === false)\<close> inside the initial
  probe's own request; its success emits a second Connect while the flag is already true.
\<close>

theorem startup_emits_connect_twice:
  "constructor sample_logger localhost = Inr started \<and>
   settle 0 (answer ''0x1'') started = Some (Inr (JObj [(''result'', JStr ''0x1'')]), probed) \<and>
   connected probed \<and>
   emitted probed = [(Connect, JObj [(''chainId'', JStr ''0x1'')])] \<and>
   map awaiter (inflight probed) = [GetChainId] \<and>
   settle 0 (answer ''0x1'') probed = Some (Inr (JObj [(''result'', JStr ''0x1'')]), settled) \<and>
   connected settled \<and> inflight settled = [] \<and>
   emitted settled =
     [(Connect, JObj [(''chainId'', JStr ''0x1'')]), (Connect, JObj [(''chainId'', JStr ''0x1'')])]"
proof -
  have "settle 0 (answer ''0x1'') started =
          Some (Inr (JObj [(''result'', JStr ''0x1'')]), probed)"
    by code_simp
  moreover have "connected probed" by code_simp
  moreover have "emitted probed = [(Connect, JObj [(''chainId'', JStr ''0x1'')])]"
    by code_simp
  moreover have "map awaiter (inflight probed) = [GetChainId]" by code_simp
  moreover have "settle 0 (answer ''0x1'') probed =
          Some (Inr (JObj [(''result'', JStr ''0x1'')]), settled)"
    by code_simp
  moreover have "connected settled \<and> inflight settled = []" by code_simp
  moreover have "emitted settled =
     [(Connect, JObj [(''chainId'', JStr ''0x1'')]), (Connect, JObj [(''chainId'', JStr ''0x1'')])]"
    by code_simp
  ultimately show ?thesis using constructor_localhost by simp
qed

text \<open>
  C7. When a chain-id probe succeeds with chain id \<open>chainId\<close>, the events it emits are
  Connect and then, if and only if a chain id was stored before and the new one is not
  strictly equal to it, ChainChanged carrying the new id; the new id is the stored one
  afterwards. For a chain id that is a string (or any primitive value) not being
  strictly equal is being different.
\<close>

theorem chain_changed_iff_differs:
  assumes "settle i outcome s = Some (r, s')" and "awaiter (inflight s ! i) = GetChainId"
    and "getChainId_resume r = Inr chainId"
  shows "emitted s' =
           emitted s @ [(Connect, JObj [(''chainId'', chainId)])] @
           (if clientChainId s \<noteq> JUndefined \<and> \<not> strict_eq chainId (clientChainId s)
            then [(ChainChanged, chainId)] else []) \<and>
         clientChainId s' = chainId \<and>
         (primitive chainId \<longrightarrow>
            strict_eq chainId (clientChainId s) = (chainId = clientChainId s))"
proof -
  have s': "s' = snd (connectToClient_resume (Inr chainId)
                       (snd (request_settle outcome (unqueue i s))))"
    and q: "\<not> refused outcome"
    using assms(1-3) by (rule settle_probe_ok)+
  have eq: "strict_eq chainId (clientChainId s) = (chainId = clientChainId s)"
    if "primitive chainId"
    using that by (simp add: strict_eq_primitive)
  have "emitted s' =
           emitted s @ [(Connect, JObj [(''chainId'', chainId)])] @
           (if clientChainId s \<noteq> JUndefined \<and> \<not> strict_eq chainId (clientChainId s)
            then [(ChainChanged, chainId)] else [])"
    using q by (simp add: s' connectToClient_resume_Inr request_settle_emitted)
  moreover have "clientChainId s' = chainId"
    by (simp add: s' connectToClient_resume_Inr)
  ultimately show ?thesis using eq by blast
qed

theorem chain_changed_iff_differs_witness:
  "settle 0 (answer ''0x2'') probed =
     Some (Inr (JObj [(''result'', JStr ''0x2'')]),
           run sample_logger [Settle 0 (answer ''0x2'')] probed) \<and>
   awaiter (inflight probed ! 0) = GetChainId \<and>
   getChainId_resume (Inr (JObj [(''result'', JStr ''0x2'')])) = Inr (JStr ''0x2'') \<and>
   primitive (JStr ''0x2'') \<and>
   clientChainId probed = JStr ''0x1'' \<and>
   emitted (run sample_logger [Settle 0 (answer ''0x2'')] probed) =
     emitted probed @
     [(Connect, JObj [(''chainId'', JStr ''0x2'')]), (ChainChanged, JStr ''0x2'')] \<and>
   clientChainId (run sample_logger [Settle 0 (answer ''0x2'')] probed) = JStr ''0x2'' \<and>
   settle 0 (answer ''0x1'') started =
     Some (Inr (JObj [(''result'', JStr ''0x1'')]), probed) \<and>
   awaiter (inflight started ! 0) = GetChainId \<and>
   getChainId_resume (Inr (JObj [(''result'', JStr ''0x1'')])) = Inr (JStr ''0x1'') \<and>
   clientChainId started = JUndefined \<and>
   emitted probed = emitted started @ [(Connect, JObj [(''chainId'', JStr ''0x1'')])]"
proof -
  have a1: "settle 0 (answer ''0x2'') probed =
     Some (Inr (JObj [(''result'', JStr ''0x2'')]),
           run sample_logger [Settle 0 (answer ''0x2'')] probed)"
    by code_simp
  have a2: "awaiter (inflight probed ! 0) = GetChainId" by code_simp
  have a3: "getChainId_resume (Inr (JObj [(''result'', JStr ''0x2'')])) = Inr (JStr ''0x2'')"
    by code_simp
  have a4: "primitive (JStr ''0x2'')" by simp
  have a5: "clientChainId probed = JStr ''0x1''" by code_simp
  have b1: "settle 0 (answer ''0x1'') started =
     Some (Inr (JObj [(''result'', JStr ''0x1'')]), probed)"
    by code_simp
  have b2: "awaiter (inflight started ! 0) = GetChainId" by code_simp
  have b3: "getChainId_resume (Inr (JObj [(''result'', JStr ''0x1'')])) = Inr (JStr ''0x1'')"
    by code_simp
  have b5: "clientChainId started = JUndefined" by code_simp
  from chain_changed_iff_differs [OF a1 a2 a3] chain_changed_iff_differs [OF b1 b2 b3]
    a1 a2 a3 a4 a5 b1 b2 b3 b5
  show ?thesis by simp
qed



text \<open>
  C9. Every call of \<^verbatim>\<open>request\<close>, in its part before the \<^verbatim>\<open>post\<close> and in its part
  after the \<^verbatim>\<open>post\<close> has settled, successfully or not, leaves the stored endpoint
  \<^verbatim>\<open>web3Client\<close> and the HTTP client handle as they were. (The settling covers the
  probe that the call belongs to or triggers; what may change is the connected flag and
  the stored chain id.)
\<close>

theorem request_keeps_endpoint_and_client:
  "httpClient (snd (request args s)) = httpClient s \<and>
   web3Client (snd (request args s)) = web3Client s \<and>
   (settle i outcome s = Some (r, s') \<longrightarrow>
      httpClient s' = httpClient s \<and> web3Client s' = web3Client s)"
  by (auto simp add: request_def request_begin_cases settle_frame split: option.splits)

theorem request_keeps_endpoint_and_client_witness:
  "settle 0 econnrefused busy =
     Some (Inl (Error ''connect ECONNREFUSED 127.0.0.1:8545''),
           run sample_logger [Settle 0 econnrefused] busy) \<and>
   httpClient (snd (request blockNumber busy)) = httpClient busy \<and>
   web3Client (snd (request blockNumber busy)) = web3Client busy \<and>
   httpClient (run sample_logger [Settle 0 econnrefused] busy) = httpClient busy \<and>
   web3Client (run sample_logger [Settle 0 econnrefused] busy) = web3Client busy \<and>
   connected busy \<and> \<not> connected (run sample_logger [Settle 0 econnrefused] busy)"
proof -
  have h: "settle 0 econnrefused busy =
             Some (Inl (Error ''connect ECONNREFUSED 127.0.0.1:8545''),
                   run sample_logger [Settle 0 econnrefused] busy)"
    by code_simp
  have c: "connected busy \<and> \<not> connected (run sample_logger [Settle 0 econnrefused] busy)"
    by code_simp
  from request_keeps_endpoint_and_client
         [of blockNumber busy 0 econnrefused _ "run sample_logger [Settle 0 econnrefused] busy"]
       h c
  show ?thesis by simp
qed

text \<open>
  C10. When a call of \<^verbatim>\<open>request\<close> fails and it is not the case that the \<^verbatim>\<open>post\<close>
  was refused while the connected flag was true, then the connected flag, the stored chain
  id, the endpoint and the client handle are what they were, and no event is emitted. A
  call that fails before any \<^verbatim>\<open>post\<close> leaves the whole provider as it was.
\<close>

theorem failed_request_preserves_state:
  assumes "\<not> (refused outcome \<and> connected s)"
  shows "(settle i outcome s = Some (Inl e, s') \<longrightarrow>
           connected s' = connected s \<and> clientChainId s' = clientChainId s \<and>
           web3Client s' = web3Client s \<and> httpClient s' = httpClient s \<and>
           emitted s' = emitted s \<and> listeners s' = listeners s) \<and>
         (request args s = (Some e, s') \<longrightarrow> s' = s)"
proof -
  have a: "connected s' = connected s \<and> clientChainId s' = clientChainId s \<and>
           web3Client s' = web3Client s \<and> httpClient s' = httpClient s \<and>
           emitted s' = emitted s \<and> listeners s' = listeners s"
    if "settle i outcome s = Some (Inl e, s')"
  proof -
    have "s' = snd (request_settle outcome (unqueue i s))"
      using that by (rule settle_failed)
    then show ?thesis
      using assms by (auto simp add: request_settle_connected request_settle_emitted)
  qed
  have b: "s' = s" if "request args s = (Some e, s')"
    using that by (auto simp add: request_def request_begin_cases split: option.splits)
  from a b show ?thesis by blast
qed

theorem failed_request_preserves_state_witness:
  "\<not> (refused timed_out \<and> connected busy) \<and>
   settle 0 timed_out busy =
     Some (Inl (Error ''timeout of 1000ms exceeded''), run sample_logger [Settle 0 timed_out] busy) \<and>
   connected (run sample_logger [Settle 0 timed_out] busy) = connected busy \<and>
   clientChainId (run sample_logger [Settle 0 timed_out] busy) = clientChainId busy \<and>
   emitted (run sample_logger [Settle 0 timed_out] busy) = emitted busy \<and>
   \<not> (refused econnrefused \<and> connected started) \<and>
   settle 0 econnrefused started =
     Some (Inl (Error ''connect ECONNREFUSED 127.0.0.1:8545''),
           run sample_logger [Settle 0 econnrefused] started) \<and>
   connected (run sample_logger [Settle 0 econnrefused] started) = connected started \<and>
   emitted (run sample_logger [Settle 0 econnrefused] started) = emitted started"
proof -
  have h1: "\<not> (refused timed_out \<and> connected busy)" by code_simp
  have s1: "settle 0 timed_out busy =
     Some (Inl (Error ''timeout of 1000ms exceeded''), run sample_logger [Settle 0 timed_out] busy)"
    by code_simp
  have h2: "\<not> (refused econnrefused \<and> connected started)" by code_simp
  have s2: "settle 0 econnrefused started =
     Some (Inl (Error ''connect ECONNREFUSED 127.0.0.1:8545''),
           run sample_logger [Settle 0 econnrefused] started)"
    by code_simp
  from failed_request_preserves_state [OF h1, of 0 _ "run sample_logger [Settle 0 timed_out] busy"]
       failed_request_preserves_state [OF h2, of 0 _ "run sample_logger [Settle 0 econnrefused] started"]
       h1 s1 h2 s2
  show ?thesis by simp
qed

end
